theory Spec2Isabelle
  imports Complex_Main
begin

section \<open>JavaScript values and thrown errors\<close>

text \<open>
  The query layer is generic in the result type \<open>T\<close> of a query, and its cache checks
  test results with \<open>if (cached)\<close> and \<open>if (cacheKey && result)\<close>, so the model
  needs run-time values with JavaScript truthiness. Numbers are integers here; \<open>JNaN\<close>
  stands for the one further falsy number.
\<close>

datatype jsval =
    JUndefined
  | JNull
  | JBool bool
  | JNum int
  | JNaN
  | JStr string
  | JArr "jsval list"
  | JObj "(string \<times> jsval) list"

fun truthy :: "jsval \<Rightarrow> bool" where
  "truthy JUndefined = False"
| "truthy JNull = False"
| "truthy (JBool b) = b"
| "truthy (JNum n) = (n \<noteq> 0)"
| "truthy JNaN = False"
| "truthy (JStr s) = (s \<noteq> [])"
| "truthy (JArr xs) = True"
| "truthy (JObj fs) = True"

text \<open>\<open>String.prototype.startsWith\<close> and \<open>String.prototype.includes\<close>.\<close>

definition startsWith :: "string \<Rightarrow> string \<Rightarrow> bool" where
  "startsWith s p = (take (length p) s = p)"

fun js_includes :: "string \<Rightarrow> string \<Rightarrow> bool" where
  "js_includes [] sub = (sub = [])"
| "js_includes (c # cs) sub = (startsWith (c # cs) sub \<or> js_includes cs sub)"

text \<open>
  The error kinds that the sources name as \<open>ErrorType.X\<close>. The enum's declaration
  (lib/error-handling) is not among the sources; these are the members in use.
\<close>

datatype ErrorType =
    DATABASE_CONNECTION
  | TIMEOUT
  | VALIDATION
  | NOT_FOUND
  | AUTHENTICATION
  | DATA_PROCESSING
  | SERVER
  | NAVIGATION

text \<open>
  \<open>new AppError(type, message, details?, retryable?)\<close>. The fourth argument is given
  only by the two re-classifying throws of \<open>executeQuery\<close>; \<open>None\<close> is an argument
  left out, whose default lies in the class, which is not among the sources.
\<close>

record AppError =
  errType :: ErrorType
  message :: string
  details :: "string option"
  retryable :: "bool option"

text \<open>
  What a \<open>catch (error)\<close> may receive: an \<open>AppError\<close>, a plain \<open>Error\<close> with its
  message, or any other thrown value.
\<close>

datatype thrown =
    ThrownAppError AppError
  | ThrownError string
  | ThrownValue jsval

text \<open>
  \<open>error instanceof Error\<close> together with \<open>error.message\<close>: \<open>AppError\<close> is taken to
  extend \<open>Error\<close>, as its \<open>message\<close> field, read throughout the sources, suggests.
\<close>

fun instanceofError :: "thrown \<Rightarrow> string option" where
  "instanceofError (ThrownAppError a) = Some (message a)"
| "instanceofError (ThrownError m) = Some m"
| "instanceofError (ThrownValue v) = None"

section \<open>Configuration and environment (lib/db-config, lib/environment-detection)\<close>

definition CONNECTION_TIMEOUT_MS :: int where "CONNECTION_TIMEOUT_MS = 10000"
definition CACHE_TTL_MS :: int where "CACHE_TTL_MS = 60000"
definition RETRY_ATTEMPTS :: nat where "RETRY_ATTEMPTS = 3"
definition RETRY_DELAY_MS :: nat where "RETRY_DELAY_MS = 500"
definition HEALTH_CHECK_INTERVAL_MS :: int where "HEALTH_CHECK_INTERVAL_MS = 300000"

text \<open>
  What the detection functions read: \<open>process.env\<close>, \<open>window.location.hostname\<close>
  (\<open>None\<close> when \<open>typeof window === "undefined"\<close>, as on the server) and
  \<open>document.cookie\<close> (\<open>None\<close> when there is no \<open>document\<close>).
\<close>

record environment =
  process_env :: "string \<rightharpoonup> string"
  window_hostname :: "string option"
  document_cookie :: "string option"

text \<open>\<open>a || b\<close> on \<open>string | undefined\<close>: the empty string is falsy.\<close>

definition js_or :: "string option \<Rightarrow> string option \<Rightarrow> string option" where
  "js_or a b = (case a of Some s \<Rightarrow> if s \<noteq> [] then a else b | None \<Rightarrow> b)"

definition preview_hostname :: "string \<Rightarrow> bool" where
  "preview_hostname hostname =
     (js_includes hostname ''vercel.app'' \<or> js_includes hostname ''localhost''
      \<or> js_includes hostname ''vusercontent.net'')"

text \<open>lib/db-config: \<open>isPreviewEnvironment\<close> and \<open>getDatabaseUrl\<close>.\<close>

definition isPreviewEnvironment :: "environment \<Rightarrow> bool" where
  "isPreviewEnvironment env =
     (if process_env env ''IS_PREVIEW'' = Some ''true''
         \<or> process_env env ''VERCEL_ENV'' = Some ''preview'' then True
      else (case window_hostname env of
              Some hostname \<Rightarrow> preview_hostname hostname
            | None \<Rightarrow> False))"

definition getDatabaseUrl :: "environment \<Rightarrow> string option" where
  "getDatabaseUrl env =
     (if isPreviewEnvironment env then None
      else (let dbUrl =
                  js_or (process_env env ''DATABASE_URL'')
                 (js_or (process_env env ''POSTGRES_URL'')
                 (js_or (process_env env ''POSTGRES_PRISMA_URL'')
                        (process_env env ''POSTGRES_URL_NON_POOLING'')))
            in case dbUrl of
                 Some u \<Rightarrow> if u \<noteq> [] then Some u else None
               | None \<Rightarrow> None))"

text \<open>
  \<open>document.cookie.split("; ")\<close>: the rows between occurrences of the separator,
  scanned from the left.
\<close>

fun split_rows :: "string \<Rightarrow> string \<Rightarrow> string list" where
  "split_rows acc [] = [rev acc]"
| "split_rows acc [c] = [rev (c # acc)]"
| "split_rows acc (c # d # cs) =
     (if c = CHR '';'' \<and> d = CHR '' '' then rev acc # split_rows [] cs
      else split_rows (c # acc) (d # cs))"

text \<open>
  lib/environment-detection: \<open>isPreviewMode\<close>, the check \<open>executeQuery\<close> makes. Its
  \<open>catch\<close>, which answers \<open>true\<close>, has nothing to catch in this model.
\<close>

definition isPreviewMode :: "environment \<Rightarrow> bool" where
  "isPreviewMode env =
     (if process_env env ''NEXT_PUBLIC_VERCEL_ENV'' = Some ''preview'' then True
      else if (case window_hostname env of
                 Some hostname \<Rightarrow> preview_hostname hostname
               | None \<Rightarrow> False) then True
      else if (case document_cookie env of
                 Some cookie \<Rightarrow>
                   find (\<lambda>row. startsWith row ''__previewMode='') (split_rows [] cookie) \<noteq> None
               | None \<Rightarrow> False) then True
      else if process_env env ''IS_PREVIEW'' = Some ''true'' then True
      else False)"

text \<open>
  \<open>const dbUrl = getDatabaseUrl(); export const dbClient = dbUrl ? neon(dbUrl) : null\<close>:
  the client is the URL it was made for, or \<open>None\<close> for \<open>null\<close>.
\<close>

definition dbClient :: "environment \<Rightarrow> string option" where
  "dbClient env =
     (case getDatabaseUrl env of
        Some dbUrl \<Rightarrow> if dbUrl \<noteq> [] then Some dbUrl else None
      | None \<Rightarrow> None)"

section \<open>Query cache\<close>

text \<open>
  Modelled from the spec: lib/cache (the \<open>queryCache\<close> object) is not among the
  sources. After the spec's data model and section 4.1: an entry is a value with its
  expiry timestamp; \<open>get\<close> returns absent if the key was never set, was invalidated, or
  \<open>now > expiresAt\<close>, evicting the entry on that read; \<open>set\<close> overwrites and starts
  the expiry clock from the call time; \<open>invalidate\<close> removes one entry;
  \<open>invalidateByPrefix(namespace)\<close> removes every entry whose key starts with
  \<open>namespace:\<close>; \<open>invalidateAll\<close> empties the cache. Times are milliseconds.
\<close>

record CacheEntry =
  entry_value :: jsval
  expiresAt :: int

type_synonym query_cache = "string \<rightharpoonup> CacheEntry"

definition cache_get :: "query_cache \<Rightarrow> string \<Rightarrow> int \<Rightarrow> jsval option \<times> query_cache" where
  "cache_get c key now =
     (case c key of
        None \<Rightarrow> (None, c)
      | Some e \<Rightarrow> if now > expiresAt e then (None, c(key := None))
                  else (Some (entry_value e), c))"

definition cache_set :: "query_cache \<Rightarrow> string \<Rightarrow> jsval \<Rightarrow> int \<Rightarrow> int \<Rightarrow> query_cache" where
  "cache_set c key v ttlMs now = c(key \<mapsto> \<lparr>entry_value = v, expiresAt = now + ttlMs\<rparr>)"

definition invalidate :: "query_cache \<Rightarrow> string \<Rightarrow> query_cache" where
  "invalidate c key = c(key := None)"

definition invalidateByPrefix :: "query_cache \<Rightarrow> string \<Rightarrow> query_cache" where
  "invalidateByPrefix c namespace =
     (\<lambda>key. if startsWith key (namespace @ '':'') then None else c key)"

definition invalidateAll :: "query_cache \<Rightarrow> query_cache" where
  "invalidateAll c = Map.empty"

section \<open>Retry executor\<close>

text \<open>
  Modelled from the spec: lib/retry-utils (\<open>withRetry\<close>) is not among the sources.
  After the spec's section 4.2: the attempt counter starts at 1; the operation is
  invoked; on success its result is returned; on failure, if \<open>retryableCheck(error)\<close>
  is false or the counter has reached \<open>maxAttempts\<close>, the failure propagates; otherwise
  the executor waits \<open>baseDelayMs \<times> backoffMultiplier^(attempt-1)\<close>, increments the
  counter and invokes the operation again.

  The operation is a zero-argument function with effects: \<open>operation k\<close> is what its
  \<open>k\<close>-th invocation produces. The executor returns the result with the trace of what
  it did, in order.
\<close>

record RetryConfig =
  maxAttempts :: nat
  baseDelayMs :: nat
  backoffMultiplier :: rat
  retryableCheck :: "thrown \<Rightarrow> bool"

datatype retry_event = Invoked nat | Waited rat

definition backoff_delay :: "RetryConfig \<Rightarrow> nat \<Rightarrow> rat" where
  "backoff_delay config attempt =
     of_nat (baseDelayMs config) * backoffMultiplier config ^ (attempt - 1)"

function withRetry_from ::
  "(nat \<Rightarrow> thrown + 'a) \<Rightarrow> RetryConfig \<Rightarrow> nat \<Rightarrow> (thrown + 'a) \<times> retry_event list" where
  "withRetry_from operation config attempt =
     (case operation attempt of
        Inr result \<Rightarrow> (Inr result, [Invoked attempt])
      | Inl e \<Rightarrow>
          if \<not> retryableCheck config e \<or> maxAttempts config \<le> attempt
          then (Inl e, [Invoked attempt])
          else (case withRetry_from operation config (Suc attempt) of
                  (r, events) \<Rightarrow>
                    (r, Invoked attempt # Waited (backoff_delay config attempt) # events)))"
  by pat_completeness auto
termination
  by (relation "measure (\<lambda>(operation, config, attempt). maxAttempts config - attempt)") auto

declare withRetry_from.simps [simp del]

definition withRetry ::
  "(nat \<Rightarrow> thrown + 'a) \<Rightarrow> RetryConfig \<Rightarrow> (thrown + 'a) \<times> retry_event list" where
  "withRetry operation config = withRetry_from operation config 1"

text \<open>How often the trace invoked the operation, and the waits it made, in order.\<close>

fun invocations :: "retry_event list \<Rightarrow> nat" where
  "invocations [] = 0"
| "invocations (Invoked k # es) = Suc (invocations es)"
| "invocations (Waited d # es) = invocations es"

fun waits :: "retry_event list \<Rightarrow> rat list" where
  "waits [] = []"
| "waits (Invoked k # es) = waits es"
| "waits (Waited d # es) = d # waits es"

section \<open>Health monitor (lib/db-health)\<close>

record DbHealthStatus =
  isConnected :: bool
  lastChecked :: int
  responseTimeMs :: "int option"
  error :: "string option"

text \<open>The module's initial status; \<open>new Date(0)\<close> is time 0.\<close>

definition initial_dbHealthStatus :: DbHealthStatus where
  "initial_dbHealthStatus =
     \<lparr>isConnected = False, lastChecked = 0, responseTimeMs = None,
      error = Some ''Health check not yet performed''\<rparr>"

text \<open>The module-level state: \<open>let dbHealthStatus\<close> and the \<open>queryCache\<close> object.\<close>

record world =
  dbHealthStatus :: DbHealthStatus
  queryCache :: query_cache

definition getDbHealthStatus :: "world \<Rightarrow> DbHealthStatus" where
  "getDbHealthStatus w = dbHealthStatus w"

text \<open>
  What the database does with one probe: \<open>neon(dbUrl)\<close> or the query throws at once,
  or the query's promise resolves or rejects after so many milliseconds, or stays
  pending.
\<close>

datatype probe =
    ClientThrows thrown
  | QueryResolves rat
  | QueryRejects rat thrown
  | QueryPending

definition health_check_timeout :: thrown where
  "health_check_timeout = ThrownError ''Database health check timed out''"

text \<open>
  \<open>Promise.race([testClient`SELECT 1 as health_check`, timeoutPromise])\<close>, the timeout
  rejecting after \<open>CONNECTION_TIMEOUT_MS\<close>: the elapsed time on success.
\<close>

definition promise_race :: "probe \<Rightarrow> thrown + rat" where
  "promise_race p =
     (case p of
        ClientThrows e \<Rightarrow> Inl e
      | QueryResolves elapsed \<Rightarrow>
          if elapsed < of_int CONNECTION_TIMEOUT_MS then Inr elapsed else Inl health_check_timeout
      | QueryRejects elapsed e \<Rightarrow>
          if elapsed < of_int CONNECTION_TIMEOUT_MS then Inl e else Inl health_check_timeout
      | QueryPending \<Rightarrow> Inl health_check_timeout)"

definition Math_round :: "rat \<Rightarrow> int" where
  "Math_round x = \<lfloor>x + 1 / 2\<rfloor>"

text \<open>The \<open>try\<close> block of \<open>checkDbHealth\<close>; \<open>now\<close> is what \<open>new Date()\<close> reads.\<close>

definition checkDbHealth_try :: "environment \<Rightarrow> probe \<Rightarrow> int \<Rightarrow> thrown + DbHealthStatus" where
  "checkDbHealth_try env p now =
     (case js_or (getDatabaseUrl env) None of
        None \<Rightarrow>
          Inl (ThrownAppError
                 \<lparr>errType = DATABASE_CONNECTION, message = ''Database URL not found'',
                  details = Some ''Check environment variables'', retryable = None\<rparr>)
      | Some dbUrl \<Rightarrow>
          (case promise_race p of
             Inl e \<Rightarrow> Inl e
           | Inr elapsed \<Rightarrow>
               Inr \<lparr>isConnected = True, lastChecked = now,
                    responseTimeMs = Some (Math_round elapsed), error = None\<rparr>))"

text \<open>
  \<open>checkDbHealth\<close>. \<open>logError\<close> (lib/error-handling) is not among the sources and is
  a parameter: it takes the caught value and a context label and returns an
  \<open>AppError\<close>. The result is the promise's: \<open>Inl\<close> would be a rejection.
\<close>

definition checkDbHealth ::
  "(thrown \<Rightarrow> string \<Rightarrow> AppError) \<Rightarrow> environment \<Rightarrow> probe \<Rightarrow> int \<Rightarrow> world
     \<Rightarrow> (thrown + DbHealthStatus) \<times> world" where
  "checkDbHealth logError env p now w =
     (if isPreviewEnvironment env
      then (let status = \<lparr>isConnected = True, lastChecked = now,
                           responseTimeMs = Some 0, error = None\<rparr>
            in (Inr status, w\<lparr>dbHealthStatus := status\<rparr>))
      else (case checkDbHealth_try env p now of
              Inr status \<Rightarrow> (Inr status, w\<lparr>dbHealthStatus := status\<rparr>)
            | Inl e \<Rightarrow>
                (let appError = logError e ''Database Health Check'';
                     status = \<lparr>isConnected = False, lastChecked = now,
                               responseTimeMs = None, error = Some (message appError)\<rparr>
                 in (Inr status, w\<lparr>dbHealthStatus := status\<rparr>))))"

text \<open>
  What one firing of the interval timer does, with the calls it makes:
  \<open>checkDbHealth().then((status) => { if (status.isConnected &&
  !dbHealthStatus.isConnected) { console.log(...); queryCache.invalidateAll() }
  }).catch(console.error)\<close>. The callback of \<open>then\<close> reads the module's
  \<open>dbHealthStatus\<close> after \<open>checkDbHealth\<close> has assigned it.
\<close>

datatype monitor_event =
    ConsoleLog string
  | ConsoleError thrown
  | InvalidateAllCalled

definition interval_callback ::
  "(thrown \<Rightarrow> string \<Rightarrow> AppError) \<Rightarrow> environment \<Rightarrow> world \<Rightarrow> probe \<times> int
     \<Rightarrow> world \<times> monitor_event list" where
  "interval_callback logError env w tick =
     (case checkDbHealth logError env (fst tick) (snd tick) w of
        (Inr status, w1) \<Rightarrow>
          if isConnected status \<and> \<not> isConnected (dbHealthStatus w1)
          then (w1\<lparr>queryCache := invalidateAll (queryCache w1)\<rparr>,
                [ConsoleLog ''Database connection restored, invalidating cache'',
                 InvalidateAllCalled])
          else (w1, [])
      | (Inl e, w1) \<Rightarrow> (w1, [ConsoleError e]))"

text \<open>
  The timer: one callback per firing, each a probe with the time it is recorded at,
  until the stop handle is used. The result lists what each firing did.
\<close>

fun run_interval ::
  "(thrown \<Rightarrow> string \<Rightarrow> AppError) \<Rightarrow> environment \<Rightarrow> world \<Rightarrow> (probe \<times> int) list
     \<Rightarrow> world \<times> monitor_event list list" where
  "run_interval logError env w [] = (w, [])"
| "run_interval logError env w (tick # ticks) =
     (case interval_callback logError env w tick of
        (w1, events) \<Rightarrow>
          (case run_interval logError env w1 ticks of
             (w2, rest) \<Rightarrow> (w2, events # rest)))"

text \<open>
  \<open>startHealthChecks\<close>: nothing in preview mode; otherwise the initial check, whose
  result goes through no \<open>then\<close>, and the interval's firings after it.
\<close>

definition startHealthChecks ::
  "(thrown \<Rightarrow> string \<Rightarrow> AppError) \<Rightarrow> environment \<Rightarrow> world \<Rightarrow> probe \<times> int
     \<Rightarrow> (probe \<times> int) list \<Rightarrow> world \<times> monitor_event list list" where
  "startHealthChecks logError env w initial ticks =
     (if isPreviewEnvironment env then (w, [])
      else (case checkDbHealth logError env (fst initial) (snd initial) w of
              (Inr status, w0) \<Rightarrow> run_interval logError env w0 ticks
            | (Inl e, w0) \<Rightarrow>
                (case run_interval logError env w0 ticks of
                   (w1, rest) \<Rightarrow> (w1, [ConsoleError e] # rest))))"

section \<open>Query execution (\<open>executeQuery\<close>, second module of lib/db-health.ts)\<close>

record options =
  cacheKey :: "string option"
  cacheTtl :: "int option"
  retryConfig :: "RetryConfig option"
  critical :: "bool option"

text \<open>
  The operation handed to \<open>withRetry\<close>: the caller's \<open>queryFn\<close>, whose failures are
  re-thrown as retryable \<open>AppError\<close>s when their message includes \<open>timeout\<close> or
  \<open>connection\<close>. \<open>queryFn k\<close> is what the \<open>k\<close>-th invocation of \<open>queryFn\<close>
  produces.
\<close>

definition enhance_error :: "thrown \<Rightarrow> thrown" where
  "enhance_error e =
     (case instanceofError e of
        Some msg \<Rightarrow>
          if js_includes msg ''timeout''
          then ThrownAppError \<lparr>errType = TIMEOUT, message = ''Database query timed out'',
                               details = Some msg, retryable = Some True\<rparr>
          else if js_includes msg ''connection''
          then ThrownAppError \<lparr>errType = DATABASE_CONNECTION,
                               message = ''Database connection error'',
                               details = Some msg, retryable = Some True\<rparr>
          else e
      | None \<Rightarrow> e)"

definition guarded_query :: "(nat \<Rightarrow> thrown + jsval) \<Rightarrow> nat \<Rightarrow> thrown + jsval" where
  "guarded_query queryFn k =
     (case queryFn k of
        Inr result \<Rightarrow> Inr result
      | Inl e \<Rightarrow> Inl (enhance_error e))"

text \<open>
  What a call of \<open>executeQuery\<close> leaves: the value returned or thrown, the cache,
  and the trace of the retry executor (\<open>None\<close> when \<open>withRetry\<close> was not called; the
  operation is invoked by the executor only).
\<close>

record exec_result =
  outcome :: "thrown + jsval"
  cache_after :: query_cache
  retry_log :: "retry_event list option"

text \<open>
  The check for a cached result: \<open>if (cacheKey) { const cached =
  queryCache.get(cacheKey); if (cached) { return cached } }\<close>. It answers with the
  value to return, if there is one, and the cache as the read leaves it. An absent
  entry is \<open>null\<close> or \<open>undefined\<close> to the test, so falsy.
\<close>

definition cache_check :: "query_cache \<Rightarrow> string option \<Rightarrow> int \<Rightarrow> jsval option \<times> query_cache" where
  "cache_check c cacheKey' now =
     (case js_or cacheKey' None of
        Some key \<Rightarrow>
          (case cache_get c key now of
             (Some cached, c1) \<Rightarrow> if truthy cached then (Some cached, c1) else (None, c1)
           | (None, c1) \<Rightarrow> (None, c1))
      | None \<Rightarrow> (None, c))"

text \<open>
  \<open>executeQuery(queryFn, options)\<close>. \<open>logError\<close> and \<open>DEFAULT_RETRY_CONFIG\<close>
  (lib/error-handling, lib/retry-utils) are not among the sources and are parameters.
  \<open>now\<close> is what \<open>Date.now()\<close> reads before the query runs (in \<open>queryCache.get\<close> and
  in the health check of critical queries), \<open>now_done\<close> what it reads once the retry
  executor has returned (in \<open>queryCache.set\<close>).
\<close>

definition executeQuery ::
  "(thrown \<Rightarrow> string \<Rightarrow> AppError) \<Rightarrow> RetryConfig \<Rightarrow> environment \<Rightarrow> world
     \<Rightarrow> (nat \<Rightarrow> thrown + jsval) \<Rightarrow> options \<Rightarrow> int \<Rightarrow> int \<Rightarrow> exec_result" where
  "executeQuery logError DEFAULT_RETRY_CONFIG env w queryFn opts now now_done =
     (let cacheTtl' = (case cacheTtl opts of Some t \<Rightarrow> t | None \<Rightarrow> CACHE_TTL_MS);
          retryConfig' = (case retryConfig opts of Some c \<Rightarrow> c | None \<Rightarrow> DEFAULT_RETRY_CONFIG);
          critical' = (case critical opts of Some b \<Rightarrow> b | None \<Rightarrow> False)
      in
      if isPreviewMode env
      then \<lparr>outcome = Inl (ThrownAppError
               \<lparr>errType = SERVER,
                message = ''Database queries cannot be executed in preview mode'',
                details = Some ''Use mock data instead'', retryable = None\<rparr>),
            cache_after = queryCache w, retry_log = None\<rparr>
      else
        (case cache_check (queryCache w) (cacheKey opts) now of
           (Some cached, c1) \<Rightarrow> \<lparr>outcome = Inr cached, cache_after = c1, retry_log = None\<rparr>
         | (None, c1) \<Rightarrow>
             (case dbClient env of
                None \<Rightarrow>
                  \<lparr>outcome = Inl (ThrownAppError
                     \<lparr>errType = DATABASE_CONNECTION,
                      message = ''Database client not initialized'',
                      details = Some ''Database URL environment variable may be missing or invalid'',
                      retryable = None\<rparr>),
                   cache_after = c1, retry_log = None\<rparr>
              | Some sql \<Rightarrow>
                  (let health = getDbHealthStatus w in
                   if critical' \<and> \<not> isConnected health
                      \<and> lastChecked health > now - 60000
                   then \<lparr>outcome = Inl (ThrownAppError
                            \<lparr>errType = DATABASE_CONNECTION,
                             message = ''Database is currently unavailable'',
                             details = js_or (error health) (Some ''Recent health check failed''),
                             retryable = None\<rparr>),
                         cache_after = c1, retry_log = None\<rparr>
                   else
                     (case withRetry (guarded_query queryFn) retryConfig' of
                        (Inr result, events) \<Rightarrow>
                          \<lparr>outcome = Inr result,
                           cache_after =
                             (case js_or (cacheKey opts) None of
                                Some key \<Rightarrow>
                                  if truthy result
                                  then cache_set c1 key result cacheTtl' now_done
                                  else c1
                              | None \<Rightarrow> c1),
                           retry_log = Some events\<rparr>
                      | (Inl e, events) \<Rightarrow>
                          \<lparr>outcome = Inl (ThrownAppError (logError e ''Database Query'')),
                           cache_after = c1, retry_log = Some events\<rparr>)))))"

section \<open>Inputs of the examples\<close>

text \<open>
  A server with a database URL and no preview setting; the same server with
  \<open>NEXT_PUBLIC_VERCEL_ENV=preview\<close>, which \<open>isPreviewMode\<close> reads and
  \<open>isPreviewEnvironment\<close> does not; and a server with no database URL.
\<close>

definition server_env :: environment where
  "server_env =
     \<lparr>process_env = [''DATABASE_URL'' \<mapsto> ''postgres://db.example/songblood''],
      window_hostname = None, document_cookie = None\<rparr>"

definition preview_env :: environment where
  "preview_env =
     \<lparr>process_env = [''DATABASE_URL'' \<mapsto> ''postgres://db.example/songblood'',
                     ''NEXT_PUBLIC_VERCEL_ENV'' \<mapsto> ''preview''],
      window_hostname = None, document_cookie = None\<rparr>"

definition bare_env :: environment where
  "bare_env = \<lparr>process_env = Map.empty, window_hostname = None, document_cookie = None\<rparr>"

text \<open>
  One \<open>logError\<close> and one default retry configuration to run the examples with: an
  \<open>AppError\<close> passes through, anything else becomes a \<open>SERVER\<close> error that keeps the
  message; errors flagged retryable are retried.
\<close>

definition plain_logError :: "thrown \<Rightarrow> string \<Rightarrow> AppError" where
  "plain_logError e label =
     (case e of
        ThrownAppError a \<Rightarrow> a
      | ThrownError m \<Rightarrow>
          \<lparr>errType = SERVER, message = m, details = Some label, retryable = None\<rparr>
      | ThrownValue v \<Rightarrow>
          \<lparr>errType = SERVER, message = ''An unexpected error occurred'',
           details = Some label, retryable = None\<rparr>)"

definition retry_by_flag :: RetryConfig where
  "retry_by_flag =
     \<lparr>maxAttempts = RETRY_ATTEMPTS, baseDelayMs = RETRY_DELAY_MS, backoffMultiplier = 2,
      retryableCheck =
        (\<lambda>e. case e of ThrownAppError a \<Rightarrow> retryable a = Some True | _ \<Rightarrow> False)\<rparr>"

section \<open>Facts about the helpers\<close>

lemma startsWith_iff: "startsWith s p \<longleftrightarrow> (\<exists>rest. s = p @ rest)"
proof
  assume "startsWith s p"
  then have "s = p @ drop (length p) s"
    by (metis startsWith_def append_take_drop_id)
  then show "\<exists>rest. s = p @ rest" ..
next
  assume "\<exists>rest. s = p @ rest"
  then show "startsWith s p" by (auto simp: startsWith_def)
qed

lemma server_env_facts:
  "\<not> isPreviewMode server_env" "\<not> isPreviewEnvironment server_env"
  "getDatabaseUrl server_env = Some ''postgres://db.example/songblood''"
  "dbClient server_env = Some ''postgres://db.example/songblood''"
  by (simp_all add: server_env_def isPreviewMode_def isPreviewEnvironment_def
        getDatabaseUrl_def dbClient_def js_or_def)

lemma preview_env_facts:
  "isPreviewMode preview_env" "\<not> isPreviewEnvironment preview_env"
  "dbClient preview_env = Some ''postgres://db.example/songblood''"
  by (simp_all add: preview_env_def isPreviewMode_def isPreviewEnvironment_def
        getDatabaseUrl_def dbClient_def js_or_def)

lemma bare_env_facts:
  "\<not> isPreviewMode bare_env" "\<not> isPreviewEnvironment bare_env"
  "getDatabaseUrl bare_env = None" "dbClient bare_env = None"
  by (simp_all add: bare_env_def isPreviewMode_def isPreviewEnvironment_def
        getDatabaseUrl_def dbClient_def js_or_def)

subsection \<open>One step of the retry executor\<close>

lemma withRetry_success:
  "operation attempt = Inr result \<Longrightarrow>
   withRetry_from operation config attempt = (Inr result, [Invoked attempt])"
  by (subst withRetry_from.simps) simp

lemma withRetry_not_retryable:
  "operation attempt = Inl e \<Longrightarrow> \<not> retryableCheck config e \<Longrightarrow>
   withRetry_from operation config attempt = (Inl e, [Invoked attempt])"
  by (subst withRetry_from.simps) simp

lemma withRetry_final_attempt:
  "operation attempt = Inl e \<Longrightarrow> maxAttempts config \<le> attempt \<Longrightarrow>
   withRetry_from operation config attempt = (Inl e, [Invoked attempt])"
  by (subst withRetry_from.simps) simp

lemma withRetry_retry_step:
  "operation attempt = Inl e \<Longrightarrow> retryableCheck config e \<Longrightarrow>
   attempt < maxAttempts config \<Longrightarrow>
   withRetry_from operation config attempt =
     (fst (withRetry_from operation config (Suc attempt)),
      Invoked attempt # Waited (backoff_delay config attempt)
        # snd (withRetry_from operation config (Suc attempt)))"
  by (subst withRetry_from.simps) (simp add: case_prod_beta)

lemma withRetry_first_success:
  "operation 1 = Inr result \<Longrightarrow> withRetry operation config = (Inr result, [Invoked 1])"
  unfolding withRetry_def by (rule withRetry_success)

subsection \<open>The paths of \<open>executeQuery\<close>\<close>

lemma executeQuery_preview:
  "isPreviewMode env \<Longrightarrow>
   executeQuery logError D env w queryFn opts now now_done =
     \<lparr>outcome = Inl (ThrownAppError
        \<lparr>errType = SERVER, message = ''Database queries cannot be executed in preview mode'',
         details = Some ''Use mock data instead'', retryable = None\<rparr>),
      cache_after = queryCache w, retry_log = None\<rparr>"
  by (simp add: executeQuery_def)

lemma executeQuery_hit:
  "\<not> isPreviewMode env \<Longrightarrow>
   cache_check (queryCache w) (cacheKey opts) now = (Some cached, c1) \<Longrightarrow>
   executeQuery logError D env w queryFn opts now now_done =
     \<lparr>outcome = Inr cached, cache_after = c1, retry_log = None\<rparr>"
  by (simp add: executeQuery_def)

lemma executeQuery_no_client:
  "\<not> isPreviewMode env \<Longrightarrow>
   cache_check (queryCache w) (cacheKey opts) now = (None, c1) \<Longrightarrow>
   dbClient env = None \<Longrightarrow>
   executeQuery logError D env w queryFn opts now now_done =
     \<lparr>outcome = Inl (ThrownAppError
        \<lparr>errType = DATABASE_CONNECTION, message = ''Database client not initialized'',
         details = Some ''Database URL environment variable may be missing or invalid'',
         retryable = None\<rparr>),
      cache_after = c1, retry_log = None\<rparr>"
  by (simp add: executeQuery_def)

lemma executeQuery_gated:
  "\<not> isPreviewMode env \<Longrightarrow>
   cache_check (queryCache w) (cacheKey opts) now = (None, c1) \<Longrightarrow>
   dbClient env = Some sql \<Longrightarrow>
   critical opts = Some True \<Longrightarrow> \<not> isConnected (dbHealthStatus w) \<Longrightarrow>
   lastChecked (dbHealthStatus w) > now - 60000 \<Longrightarrow>
   executeQuery logError D env w queryFn opts now now_done =
     \<lparr>outcome = Inl (ThrownAppError
        \<lparr>errType = DATABASE_CONNECTION, message = ''Database is currently unavailable'',
         details = js_or (error (dbHealthStatus w)) (Some ''Recent health check failed''),
         retryable = None\<rparr>),
      cache_after = c1, retry_log = None\<rparr>"
  by (simp add: executeQuery_def getDbHealthStatus_def)

lemma executeQuery_success:
  "\<not> isPreviewMode env \<Longrightarrow>
   cache_check (queryCache w) (cacheKey opts) now = (None, c1) \<Longrightarrow>
   dbClient env = Some sql \<Longrightarrow>
   \<not> (critical opts = Some True \<and> \<not> isConnected (dbHealthStatus w)
      \<and> lastChecked (dbHealthStatus w) > now - 60000) \<Longrightarrow>
   withRetry (guarded_query queryFn)
     (case retryConfig opts of Some c \<Rightarrow> c | None \<Rightarrow> D) = (Inr result, events) \<Longrightarrow>
   executeQuery logError D env w queryFn opts now now_done =
     \<lparr>outcome = Inr result,
      cache_after =
        (case js_or (cacheKey opts) None of
           Some key \<Rightarrow>
             if truthy result
             then cache_set c1 key result
                    (case cacheTtl opts of Some t \<Rightarrow> t | None \<Rightarrow> CACHE_TTL_MS) now_done
             else c1
         | None \<Rightarrow> c1),
      retry_log = Some events\<rparr>"
  by (cases "critical opts") (auto simp add: executeQuery_def getDbHealthStatus_def)

lemma executeQuery_failure:
  "\<not> isPreviewMode env \<Longrightarrow>
   cache_check (queryCache w) (cacheKey opts) now = (None, c1) \<Longrightarrow>
   dbClient env = Some sql \<Longrightarrow>
   \<not> (critical opts = Some True \<and> \<not> isConnected (dbHealthStatus w)
      \<and> lastChecked (dbHealthStatus w) > now - 60000) \<Longrightarrow>
   withRetry (guarded_query queryFn)
     (case retryConfig opts of Some c \<Rightarrow> c | None \<Rightarrow> D) = (Inl e, events) \<Longrightarrow>
   executeQuery logError D env w queryFn opts now now_done =
     \<lparr>outcome = Inl (ThrownAppError (logError e ''Database Query'')),
      cache_after = c1, retry_log = Some events\<rparr>"
  by (cases "critical opts") (auto simp add: executeQuery_def getDbHealthStatus_def)

text \<open>Every call of \<open>executeQuery\<close> takes one of six paths.\<close>

lemma executeQuery_cases [case_names preview hit no_client gated success failure]:
  obtains
    (preview) "isPreviewMode env"
  | (hit) cached c1 where "\<not> isPreviewMode env"
      "cache_check (queryCache w) (cacheKey opts) now = (Some cached, c1)"
  | (no_client) c1 where "\<not> isPreviewMode env"
      "cache_check (queryCache w) (cacheKey opts) now = (None, c1)"
      "dbClient env = None"
  | (gated) c1 sql where "\<not> isPreviewMode env"
      "cache_check (queryCache w) (cacheKey opts) now = (None, c1)"
      "dbClient env = Some sql"
      "critical opts = Some True" "\<not> isConnected (dbHealthStatus w)"
      "lastChecked (dbHealthStatus w) > now - 60000"
  | (success) c1 sql result events where "\<not> isPreviewMode env"
      "cache_check (queryCache w) (cacheKey opts) now = (None, c1)"
      "dbClient env = Some sql"
      "\<not> (critical opts = Some True \<and> \<not> isConnected (dbHealthStatus w)
         \<and> lastChecked (dbHealthStatus w) > now - 60000)"
      "withRetry (guarded_query queryFn)
         (case retryConfig opts of Some c \<Rightarrow> c | None \<Rightarrow> D) = (Inr result, events)"
  | (failure) c1 sql e events where "\<not> isPreviewMode env"
      "cache_check (queryCache w) (cacheKey opts) now = (None, c1)"
      "dbClient env = Some sql"
      "\<not> (critical opts = Some True \<and> \<not> isConnected (dbHealthStatus w)
         \<and> lastChecked (dbHealthStatus w) > now - 60000)"
      "withRetry (guarded_query queryFn)
         (case retryConfig opts of Some c \<Rightarrow> c | None \<Rightarrow> D) = (Inl e, events)"
proof (cases "isPreviewMode env")
  case True
  then show ?thesis by (rule preview)
next
  case np: False
  obtain cached c1 where cc: "cache_check (queryCache w) (cacheKey opts) now = (cached, c1)"
    by (cases "cache_check (queryCache w) (cacheKey opts) now")
  show ?thesis
  proof (cases cached)
    case (Some v)
    with np cc show ?thesis by (auto intro: hit)
  next
    case None
    note miss = cc [unfolded None]
    show ?thesis
    proof (cases "dbClient env")
      case None
      with np miss show ?thesis by (auto intro: no_client)
    next
      case (Some sql)
      show ?thesis
      proof (cases "critical opts = Some True \<and> \<not> isConnected (dbHealthStatus w)
                      \<and> lastChecked (dbHealthStatus w) > now - 60000")
        case True
        with np miss Some show ?thesis by (auto intro: gated)
      next
        case ng: False
        obtain r events where wr: "withRetry (guarded_query queryFn)
            (case retryConfig opts of Some c \<Rightarrow> c | None \<Rightarrow> D) = (r, events)"
          by (cases "withRetry (guarded_query queryFn)
            (case retryConfig opts of Some c \<Rightarrow> c | None \<Rightarrow> D)")
        show ?thesis
        proof (cases r)
          case (Inl e)
          with np miss Some ng wr show ?thesis by (blast intro: failure)
        next
          case (Inr result)
          with np miss Some ng wr show ?thesis by (blast intro: success)
        qed
      qed
    qed
  qed
qed

subsection \<open>The check for a cached result\<close>

lemma cache_check_truthy:
  "cache_check c k now = (Some v, c1) \<Longrightarrow> truthy v"
  by (auto simp: cache_check_def split: option.splits prod.splits if_splits)

lemma cache_check_live_truthy:
  "key \<noteq> [] \<Longrightarrow> c key = Some e \<Longrightarrow> \<not> now > expiresAt e \<Longrightarrow> truthy (entry_value e) \<Longrightarrow>
   cache_check c (Some key) now = (Some (entry_value e), c)"
  by (simp add: cache_check_def js_or_def cache_get_def)

lemma cache_check_live_falsy:
  "c key = Some e \<Longrightarrow> \<not> now > expiresAt e \<Longrightarrow> \<not> truthy (entry_value e) \<Longrightarrow>
   cache_check c (Some key) now = (None, c)"
  by (simp add: cache_check_def js_or_def cache_get_def)

lemma cache_check_absent:
  "c key = None \<Longrightarrow> cache_check c (Some key) now = (None, c)"
  by (simp add: cache_check_def js_or_def cache_get_def)

lemma cache_get_map_le: "snd (cache_get c key now) \<subseteq>\<^sub>m c"
  by (auto simp: cache_get_def map_le_def split: option.splits)

lemma cache_check_map_le: "snd (cache_check c k now) \<subseteq>\<^sub>m c"
proof (cases "js_or k None")
  case None
  then show ?thesis by (simp add: cache_check_def)
next
  case (Some key)
  have "snd (cache_check c k now) = snd (cache_get c key now)"
    using Some by (simp add: cache_check_def split: prod.splits option.splits)
  then show ?thesis by (simp add: cache_get_map_le)
qed

lemma executeQuery_same_answer:
  assumes h: "dbHealthStatus w' = dbHealthStatus w"
    and c: "fst (cache_check (queryCache w') (cacheKey opts) now)
            = fst (cache_check (queryCache w) (cacheKey opts) now)"
  shows "outcome (executeQuery logError D env w' queryFn opts now now_done)
           = outcome (executeQuery logError D env w queryFn opts now now_done)
       \<and> retry_log (executeQuery logError D env w' queryFn opts now now_done)
           = retry_log (executeQuery logError D env w queryFn opts now now_done)"
proof -
  obtain c1' where c': "cache_check (queryCache w') (cacheKey opts) now
      = (fst (cache_check (queryCache w) (cacheKey opts) now), c1')"
    using c by (cases "cache_check (queryCache w') (cacheKey opts) now") simp
  show ?thesis
  proof (cases rule: executeQuery_cases [where env = env and w = w and opts = opts and now = now
      and queryFn = queryFn and D = D])
    case preview
    then show ?thesis by (simp add: executeQuery_preview)
  next
    case (hit cached c1)
    then show ?thesis using c' by (simp add: executeQuery_hit)
  next
    case (no_client c1)
    then show ?thesis using c' by (simp add: executeQuery_no_client)
  next
    case (gated c1 sql)
    then show ?thesis using c' h
      by (simp add: executeQuery_gated [where sql = sql])
  next
    case (success c1 sql result events)
    then show ?thesis using c' h
      by (simp add: executeQuery_success [where sql = sql and result = result and events = events])
  next
    case (failure c1 sql e events)
    then show ?thesis using c' h
      by (simp add: executeQuery_failure [where sql = sql and e = e and events = events])
  qed
qed

text \<open>A query that succeeds at once, run on the example server past the cache check.\<close>

lemma run_on_server:
  assumes "cache_check c (Some key) now = (None, c)"
  shows "executeQuery plain_logError retry_by_flag server_env
      \<lparr>dbHealthStatus = initial_dbHealthStatus, queryCache = c\<rparr>
      (\<lambda>k. Inr v)
      \<lparr>cacheKey = Some key, cacheTtl = ttl, retryConfig = None, critical = None\<rparr>
      now now_done
   = \<lparr>outcome = Inr v,
      cache_after =
        (case js_or (Some key) None of
           Some key \<Rightarrow>
             if truthy v
             then cache_set c key v (case ttl of Some t \<Rightarrow> t | None \<Rightarrow> CACHE_TTL_MS) now_done
             else c
         | None \<Rightarrow> c),
      retry_log = Some [Invoked 1]\<rparr>"
  using assms
  by (simp add: executeQuery_def server_env_facts getDbHealthStatus_def
        initial_dbHealthStatus_def guarded_query_def withRetry_first_success)

subsection \<open>The health monitor\<close>

lemma Math_round_of_int: "Math_round (of_int n) = n"
  unfolding Math_round_def by (rule floor_unique) simp_all

lemma Math_round_12: "Math_round 12 = 12"
  using Math_round_of_int [of 12] by simp

lemma checkDbHealth_returns:
  "\<exists>status. checkDbHealth logError env p now w = (Inr status, w\<lparr>dbHealthStatus := status\<rparr>)"
  by (simp add: checkDbHealth_def Let_def split: sum.split)

lemma checkDbHealth_failure:
  "\<not> isPreviewEnvironment env \<Longrightarrow> checkDbHealth_try env p now = Inl e \<Longrightarrow>
   checkDbHealth logError env p now w =
     (Inr \<lparr>isConnected = False, lastChecked = now, responseTimeMs = None,
           error = Some (message (logError e ''Database Health Check''))\<rparr>,
      w\<lparr>dbHealthStatus :=
          \<lparr>isConnected = False, lastChecked = now, responseTimeMs = None,
           error = Some (message (logError e ''Database Health Check''))\<rparr>\<rparr>)"
  by (simp add: checkDbHealth_def Let_def)

text \<open>The test of the timer's callback compares the new status with itself.\<close>

lemma interval_callback_no_flush:
  "interval_callback logError env w tick =
     (snd (checkDbHealth logError env (fst tick) (snd tick) w), [])"
proof -
  obtain status where
    "checkDbHealth logError env (fst tick) (snd tick) w = (Inr status, w\<lparr>dbHealthStatus := status\<rparr>)"
    using checkDbHealth_returns by blast
  then show ?thesis by (simp add: interval_callback_def)
qed

lemma interval_callback_cache:
  "queryCache (fst (interval_callback logError env w tick)) = queryCache w"
proof -
  obtain status where
    "checkDbHealth logError env (fst tick) (snd tick) w = (Inr status, w\<lparr>dbHealthStatus := status\<rparr>)"
    using checkDbHealth_returns by blast
  then show ?thesis by (simp add: interval_callback_no_flush)
qed

lemma run_interval_events:
  "snd (run_interval logError env w ticks) = replicate (length ticks) []"
  by (induction ticks arbitrary: w)
     (simp_all add: interval_callback_no_flush case_prod_beta)

lemma run_interval_cache:
  "queryCache (fst (run_interval logError env w ticks)) = queryCache w"
proof (induction ticks arbitrary: w)
  case Nil
  then show ?case by simp
next
  case (Cons tick ticks)
  have "queryCache (fst (run_interval logError env
          (fst (interval_callback logError env w tick)) ticks)) = queryCache w"
    by (simp add: Cons.IH interval_callback_cache)
  then show ?case by (simp add: case_prod_beta)
qed

text \<open>What one probe records, from what the environment and the database do.\<close>

lemma checkDbHealth_status:
  "checkDbHealth logError env p now w =
     (let status =
        (if isPreviewEnvironment env
         then \<lparr>isConnected = True, lastChecked = now, responseTimeMs = Some 0, error = None\<rparr>
         else
           (case (if getDatabaseUrl env = None
                  then Inl (ThrownAppError
                         \<lparr>errType = DATABASE_CONNECTION, message = ''Database URL not found'',
                          details = Some ''Check environment variables'', retryable = None\<rparr>)
                  else (case p of
                          ClientThrows e \<Rightarrow> Inl e
                        | QueryResolves elapsed \<Rightarrow>
                            if elapsed < of_int CONNECTION_TIMEOUT_MS then Inr elapsed
                            else Inl (ThrownError ''Database health check timed out'')
                        | QueryRejects elapsed e \<Rightarrow>
                            if elapsed < of_int CONNECTION_TIMEOUT_MS then Inl e
                            else Inl (ThrownError ''Database health check timed out'')
                        | QueryPending \<Rightarrow>
                            Inl (ThrownError ''Database health check timed out''))) of
              Inl e \<Rightarrow>
                \<lparr>isConnected = False, lastChecked = now, responseTimeMs = None,
                 error = Some (message (logError e ''Database Health Check''))\<rparr>
            | Inr elapsed \<Rightarrow>
                \<lparr>isConnected = True, lastChecked = now,
                 responseTimeMs = Some (Math_round elapsed), error = None\<rparr>))
      in (Inr status, w\<lparr>dbHealthStatus := status\<rparr>))"
proof (cases "isPreviewEnvironment env")
  case True
  then show ?thesis by (simp add: checkDbHealth_def)
next
  case np: False
  show ?thesis
  proof (cases "getDatabaseUrl env")
    case None
    then show ?thesis using np
      by (simp add: checkDbHealth_def checkDbHealth_try_def js_or_def)
  next
    case (Some u)
    have "u \<noteq> []"
      using Some by (auto simp: getDatabaseUrl_def Let_def split: if_splits option.splits)
    then have url: "js_or (Some u) None = Some u"
      by (simp add: js_or_def)
    show ?thesis using np Some
      by (cases p)
         (simp_all add: checkDbHealth_def checkDbHealth_try_def url promise_race_def
            health_check_timeout_def Let_def)
  qed
qed

text \<open>The timer runs \<open>checkDbHealth\<close> at every firing.\<close>

lemma run_interval_world:
  "fst (run_interval logError env w ticks) =
     foldl (\<lambda>w tick. snd (checkDbHealth logError env (fst tick) (snd tick) w)) w ticks"
  by (induction ticks arbitrary: w)
     (simp_all add: interval_callback_no_flush case_prod_beta)

lemma run_interval_snoc:
  "fst (run_interval logError env w (ticks @ [(p, now)])) =
     snd (checkDbHealth logError env p now (fst (run_interval logError env w ticks)))"
  by (simp add: run_interval_world)

lemma startHealthChecks_run:
  "startHealthChecks logError env w initial ticks =
     (if isPreviewEnvironment env then (w, [])
      else run_interval logError env
             (snd (checkDbHealth logError env (fst initial) (snd initial) w)) ticks)"
proof -
  obtain status where
    "checkDbHealth logError env (fst initial) (snd initial) w
       = (Inr status, w\<lparr>dbHealthStatus := status\<rparr>)"
    using checkDbHealth_returns by blast
  then show ?thesis by (simp add: startHealthChecks_def)
qed

section \<open>The retry executor\<close>

text \<open>
  C3. An operation that fails on every attempt with an error the retry predicate
  accepts is invoked exactly 3 times under \<open>{maxAttempts: 3, baseDelayMs: 10,
  backoffMultiplier: 2}\<close>; before the second attempt the executor waits
  \<open>baseDelayMs \<times> backoffMultiplier^0 = 10\<close> ms, before the third
  \<open>baseDelayMs \<times> backoffMultiplier^1 = 20\<close> ms; and the error that propagates is the
  one of the third attempt, the earlier ones being dropped.
\<close>

theorem C3_retry_exhaustion:
  assumes fails: "\<forall>k. operation k = Inl (err k) \<and> chk (err k)"
  assumes cfg: "config = \<lparr>maxAttempts = 3, baseDelayMs = 10, backoffMultiplier = 2,
                           retryableCheck = chk\<rparr>"
  shows "withRetry operation config =
           (Inl (err 3),
            [Invoked 1, Waited (backoff_delay config 1),
             Invoked 2, Waited (backoff_delay config 2), Invoked 3])
         \<and> backoff_delay config 1 = 10 \<and> backoff_delay config 2 = 20
         \<and> invocations (snd (withRetry operation config)) = 3
         \<and> waits (snd (withRetry operation config)) = [10, 20]"
proof -
  have d1: "backoff_delay config 1 = 10" and d2: "backoff_delay config 2 = 20"
    by (simp_all add: cfg backoff_delay_def)
  have op: "\<And>k. operation k = Inl (err k)" and rt: "\<And>k. retryableCheck config (err k)"
    using fails by (simp_all add: cfg)
  have m: "maxAttempts config = 3" by (simp add: cfg)
  have a3: "withRetry_from operation config 3 = (Inl (err 3), [Invoked 3])"
    by (rule withRetry_final_attempt [OF op]) (simp add: m)
  have a2: "withRetry_from operation config 2 =
              (Inl (err 3), [Invoked 2, Waited (backoff_delay config 2), Invoked 3])"
    using withRetry_retry_step [OF op rt, of 2] a3
    by (simp add: m numeral_3_eq_3 numeral_2_eq_2)
  have a1: "withRetry_from operation config 1 =
              (Inl (err 3), [Invoked 1, Waited (backoff_delay config 1),
                             Invoked 2, Waited (backoff_delay config 2), Invoked 3])"
    using withRetry_retry_step [OF op rt, of 1] a2 by (simp add: m numeral_2_eq_2)
  show ?thesis
    using a1 d1 d2 by (simp add: withRetry_def)
qed

theorem C3_retry_exhaustion_witness:
  "withRetry (\<lambda>k. Inl (ThrownValue (JNum (int k))) :: thrown + jsval)
     \<lparr>maxAttempts = 3, baseDelayMs = 10, backoffMultiplier = 2,
      retryableCheck = (\<lambda>e. True)\<rparr>
   = (Inl (ThrownValue (JNum 3)), [Invoked 1, Waited 10, Invoked 2, Waited 20, Invoked 3])"
  using C3_retry_exhaustion [of "\<lambda>k. Inl (ThrownValue (JNum (int k))) :: thrown + jsval"
      "\<lambda>k. ThrownValue (JNum (int k))" "\<lambda>e. True"
      "\<lparr>maxAttempts = 3, baseDelayMs = 10, backoffMultiplier = 2,
        retryableCheck = (\<lambda>e. True)\<rparr>"]
  by simp

text \<open>
  C7. When the first failure of the operation is an error the retry predicate
  rejects, the operation is invoked exactly once and that failure propagates at
  once, whatever \<open>maxAttempts\<close> is.
\<close>

theorem C7_non_retryable:
  assumes "operation 1 = Inl e" and "\<not> retryableCheck config e"
  shows "withRetry operation config = (Inl e, [Invoked 1])
         \<and> invocations (snd (withRetry operation config)) = 1"
  using withRetry_not_retryable [of operation 1 e config] assms by (simp add: withRetry_def)

theorem C7_non_retryable_witness:
  "withRetry (\<lambda>k. Inl (ThrownError ''syntax error'') :: thrown + jsval)
     \<lparr>maxAttempts = 1000, baseDelayMs = 500, backoffMultiplier = 2,
      retryableCheck = (\<lambda>e. False)\<rparr>
   = (Inl (ThrownError ''syntax error''), [Invoked 1])"
  using C7_non_retryable [of "\<lambda>k. Inl (ThrownError ''syntax error'') :: thrown + jsval"
      "ThrownError ''syntax error''"
      "\<lparr>maxAttempts = 1000, baseDelayMs = 500, backoffMultiplier = 2,
        retryableCheck = (\<lambda>e. False)\<rparr>"]
  by simp

section \<open>The query cache\<close>

text \<open>
  C6. After \<open>set(key, v, ttl)\<close> at time \<open>t0\<close>, \<open>get(key)\<close> at time \<open>t\<close> returns \<open>v\<close>
  while less than the TTL has elapsed (\<open>t - t0 < ttl\<close>) and absent once more than the
  TTL has elapsed (\<open>t - t0 > ttl\<close>); and in any cache, a value that \<open>get\<close> returns
  belongs to an entry that is not past its expiry timestamp.
\<close>

theorem C6_ttl_expiry:
  shows "(t - t0 < ttlMs \<longrightarrow> fst (cache_get (cache_set c key v ttlMs t0) key t) = Some v)
       \<and> (t - t0 > ttlMs \<longrightarrow> fst (cache_get (cache_set c key v ttlMs t0) key t) = None)
       \<and> (fst (cache_get c' key' t') = Some v' \<longrightarrow>
            (\<exists>e. c' key' = Some e \<and> entry_value e = v' \<and> \<not> t' > expiresAt e))"
  by (auto simp: cache_get_def cache_set_def split: option.splits if_splits)

theorem C6_ttl_expiry_witness:
  "fst (cache_get (cache_set Map.empty ''k'' (JNum 42) 100 0) ''k'' 50) = Some (JNum 42)
   \<and> fst (cache_get (cache_set Map.empty ''k'' (JNum 42) 100 0) ''k'' 150) = None
   \<and> (\<exists>e. cache_set Map.empty ''k'' (JNum 42) 100 0 ''k'' = Some e
          \<and> entry_value e = JNum 42 \<and> \<not> 50 > expiresAt e)"
  using C6_ttl_expiry [of 50 0 100 Map.empty "''k''" "JNum 42"
       "cache_set Map.empty ''k'' (JNum 42) 100 0" "''k''" 50 "JNum 42"]
    C6_ttl_expiry [of 150 0 100 Map.empty "''k''" "JNum 42"]
  by simp

text \<open>
  C8. \<open>invalidateByPrefix(namespace)\<close> removes exactly the entries whose key is the
  namespace, a colon and anything after it, and leaves every other entry as it was;
  \<open>invalidateByPrefix("platelets")\<close> removes \<open>platelets:1\<close> and \<open>platelets:2\<close> and
  leaves \<open>plasma:1\<close> as it was.
\<close>

theorem C8_invalidateByPrefix:
  "invalidateByPrefix c namespace key =
     (if (\<exists>rest. key = namespace @ '':'' @ rest) then None else c key)
   \<and> invalidateByPrefix c ''platelets'' ''platelets:1'' = None
   \<and> invalidateByPrefix c ''platelets'' ''platelets:2'' = None
   \<and> invalidateByPrefix c ''platelets'' ''plasma:1'' = c ''plasma:1''"
  by (simp add: invalidateByPrefix_def startsWith_iff)

section \<open>Query execution\<close>

text \<open>
  C2 (as amended). A call of \<open>executeQuery\<close> with \<open>critical: true\<close> that gets no value
  from the cache check, while the health status is disconnected and its
  \<open>lastChecked\<close> is less than 60 seconds old, never calls the retry executor, so never
  invokes the operation. Outside preview mode it throws an error of kind
  \<open>DATABASE_CONNECTION\<close>; in preview mode it throws the \<open>SERVER\<close> error of the
  preview check, which comes first.
\<close>

theorem C2_critical_gate:
  assumes crit: "critical opts = Some True"
    and miss: "fst (cache_check (queryCache w) (cacheKey opts) now) = None"
    and down: "\<not> isConnected (dbHealthStatus w)"
    and recent: "lastChecked (dbHealthStatus w) > now - 60000"
  shows "retry_log (executeQuery logError D env w queryFn opts now now_done) = None
       \<and> (if isPreviewMode env
          then outcome (executeQuery logError D env w queryFn opts now now_done)
               = Inl (ThrownAppError
                   \<lparr>errType = SERVER,
                    message = ''Database queries cannot be executed in preview mode'',
                    details = Some ''Use mock data instead'', retryable = None\<rparr>)
          else (\<exists>a. outcome (executeQuery logError D env w queryFn opts now now_done)
                      = Inl (ThrownAppError a) \<and> errType a = DATABASE_CONNECTION))"
proof (cases rule: executeQuery_cases [where env = env and w = w and opts = opts and now = now
      and queryFn = queryFn and D = D])
  case preview
  note run = executeQuery_preview [OF preview, of logError D w queryFn opts now now_done]
  show ?thesis using preview by (simp add: run)
next
  case (hit cached c1)
  then show ?thesis using miss by simp
next
  case (no_client c1)
  note run = executeQuery_no_client [OF no_client, of logError D queryFn now_done]
  show ?thesis using no_client(1) by (simp add: run)
next
  case (gated c1 sql)
  note run = executeQuery_gated [OF gated, of logError D queryFn now_done]
  show ?thesis using gated(1) by (simp add: run)
next
  case (success c1 sql result events)
  then show ?thesis using crit down recent by simp
next
  case (failure c1 sql e events)
  then show ?thesis using crit down recent by simp
qed

theorem C2_critical_gate_witness:
  "retry_log (executeQuery plain_logError retry_by_flag server_env
      \<lparr>dbHealthStatus = \<lparr>isConnected = False, lastChecked = 990000, responseTimeMs = None,
                          error = Some ''connect ECONNREFUSED''\<rparr>,
       queryCache = Map.empty\<rparr>
      (\<lambda>k. Inr (JArr []))
      \<lparr>cacheKey = Some ''hospital:1'', cacheTtl = None, retryConfig = None,
       critical = Some True\<rparr>
      1000000 1000000) = None
   \<and> (\<exists>a. outcome (executeQuery plain_logError retry_by_flag server_env
      \<lparr>dbHealthStatus = \<lparr>isConnected = False, lastChecked = 990000, responseTimeMs = None,
                          error = Some ''connect ECONNREFUSED''\<rparr>,
       queryCache = Map.empty\<rparr>
      (\<lambda>k. Inr (JArr []))
      \<lparr>cacheKey = Some ''hospital:1'', cacheTtl = None, retryConfig = None,
       critical = Some True\<rparr>
      1000000 1000000) = Inl (ThrownAppError a) \<and> errType a = DATABASE_CONNECTION)"
  using C2_critical_gate [of
      "\<lparr>cacheKey = Some ''hospital:1'', cacheTtl = None, retryConfig = None,
        critical = Some True\<rparr>"
      "\<lparr>dbHealthStatus = \<lparr>isConnected = False, lastChecked = 990000, responseTimeMs = None,
                          error = Some ''connect ECONNREFUSED''\<rparr>,
       queryCache = Map.empty\<rparr>"
      1000000 plain_logError retry_by_flag server_env "\<lambda>k. Inr (JArr [])" 1000000]
  by (simp add: cache_check_absent server_env_facts)

text \<open>
  C2 as stated fails in preview mode: a critical call with a health status that a
  probe 10 seconds earlier left disconnected throws the \<open>SERVER\<close> error, not a
  connection error.
\<close>

theorem C2_counterexample:
  "critical \<lparr>cacheKey = None, cacheTtl = None, retryConfig = None, critical = Some True\<rparr>
     = Some True
   \<and> fst (cache_check Map.empty None 1000000) = None
   \<and> \<not> isConnected \<lparr>isConnected = False, lastChecked = 990000, responseTimeMs = None,
                       error = Some ''connect ECONNREFUSED''\<rparr>
   \<and> lastChecked \<lparr>isConnected = False, lastChecked = 990000, responseTimeMs = None,
                    error = Some ''connect ECONNREFUSED''\<rparr> > 1000000 - 60000
   \<and> outcome (executeQuery plain_logError retry_by_flag preview_env
      \<lparr>dbHealthStatus = \<lparr>isConnected = False, lastChecked = 990000, responseTimeMs = None,
                          error = Some ''connect ECONNREFUSED''\<rparr>,
       queryCache = Map.empty\<rparr>
      (\<lambda>k. Inr (JArr []))
      \<lparr>cacheKey = None, cacheTtl = None, retryConfig = None, critical = Some True\<rparr>
      1000000 1000000)
   = Inl (ThrownAppError
        \<lparr>errType = SERVER, message = ''Database queries cannot be executed in preview mode'',
         details = Some ''Use mock data instead'', retryable = None\<rparr>)"
  by (simp add: executeQuery_preview preview_env_facts cache_check_def js_or_def)

text \<open>
  C4 (as amended). Outside preview mode, a call of \<open>executeQuery\<close> with a non-empty
  cache key whose entry is live and holds a truthy value returns that value, leaves
  the cache as it is, and does not call the retry executor, so the operation is not
  invoked.
\<close>

theorem C4_cache_hit:
  assumes "\<not> isPreviewMode env"
    and "cacheKey opts = Some key" and "key \<noteq> []"
    and "queryCache w key = Some e" and "\<not> now > expiresAt e"
    and "truthy (entry_value e)"
  shows "executeQuery logError D env w queryFn opts now now_done =
           \<lparr>outcome = Inr (entry_value e), cache_after = queryCache w, retry_log = None\<rparr>"
  using assms by (simp add: executeQuery_hit cache_check_live_truthy)

theorem C4_cache_hit_witness:
  "executeQuery plain_logError retry_by_flag server_env
      \<lparr>dbHealthStatus = initial_dbHealthStatus,
       queryCache = [''stock:1'' \<mapsto> \<lparr>entry_value = JNum 12, expiresAt = 60000\<rparr>]\<rparr>
      (\<lambda>k. Inr (JNum 7))
      \<lparr>cacheKey = Some ''stock:1'', cacheTtl = None, retryConfig = None, critical = None\<rparr>
      1000 1020
   = \<lparr>outcome = Inr (JNum 12),
      cache_after = [''stock:1'' \<mapsto> \<lparr>entry_value = JNum 12, expiresAt = 60000\<rparr>],
      retry_log = None\<rparr>"
  using C4_cache_hit [of server_env
      "\<lparr>cacheKey = Some ''stock:1'', cacheTtl = None, retryConfig = None, critical = None\<rparr>"
      "''stock:1''"
      "\<lparr>dbHealthStatus = initial_dbHealthStatus,
       queryCache = [''stock:1'' \<mapsto> \<lparr>entry_value = JNum 12, expiresAt = 60000\<rparr>]\<rparr>"
      "\<lparr>entry_value = JNum 12, expiresAt = 60000\<rparr>" 1000
      plain_logError retry_by_flag "\<lambda>k. Inr (JNum 7)" 1020]
  by (simp add: server_env_facts)

text \<open>
  C4 as stated fails for a live entry that holds 0: the operation is invoked and its
  result 7 is returned (and cached) instead of the cached 0.
\<close>

theorem C4_counterexample:
  "queryCache \<lparr>dbHealthStatus = initial_dbHealthStatus,
       queryCache = [''stock:1'' \<mapsto> \<lparr>entry_value = JNum 0, expiresAt = 60000\<rparr>]\<rparr> ''stock:1''
     = Some \<lparr>entry_value = JNum 0, expiresAt = 60000\<rparr>
   \<and> \<not> 1000 > expiresAt \<lparr>entry_value = JNum 0, expiresAt = 60000\<rparr>
   \<and> executeQuery plain_logError retry_by_flag server_env
      \<lparr>dbHealthStatus = initial_dbHealthStatus,
       queryCache = [''stock:1'' \<mapsto> \<lparr>entry_value = JNum 0, expiresAt = 60000\<rparr>]\<rparr>
      (\<lambda>k. Inr (JNum 7))
      \<lparr>cacheKey = Some ''stock:1'', cacheTtl = None, retryConfig = None, critical = None\<rparr>
      1000 1020
   = \<lparr>outcome = Inr (JNum 7),
      cache_after = [''stock:1'' \<mapsto> \<lparr>entry_value = JNum 7, expiresAt = 61020\<rparr>],
      retry_log = Some [Invoked 1]\<rparr>"
  by (simp add: run_on_server cache_check_live_falsy js_or_def cache_set_def CACHE_TTL_MS_def)

text \<open>
  C5 (as amended). When a call of \<open>executeQuery\<close> with a non-empty cache key ran the
  operation and returns its result \<open>r\<close>: if \<open>r\<close> is truthy, the cache holds \<open>r\<close>
  under that key when the call returns, expiring \<open>options.cacheTtl\<close> (60 seconds when
  none is given) after the write; if \<open>r\<close> is falsy, it is returned without being
  written, the cache being as the read of the cache check left it.
\<close>

theorem C5_cache_write:
  assumes key: "cacheKey opts = Some key" "key \<noteq> []"
    and ok: "outcome (executeQuery logError D env w queryFn opts now now_done) = Inr r"
    and ran: "retry_log (executeQuery logError D env w queryFn opts now now_done) = Some events"
  shows "(truthy r \<longrightarrow>
            cache_after (executeQuery logError D env w queryFn opts now now_done) key
              = Some \<lparr>entry_value = r,
                      expiresAt = now_done
                        + (case cacheTtl opts of Some t \<Rightarrow> t | None \<Rightarrow> 60000)\<rparr>)
       \<and> (\<not> truthy r \<longrightarrow>
            cache_after (executeQuery logError D env w queryFn opts now now_done)
              = snd (cache_check (queryCache w) (cacheKey opts) now)
          \<and> cache_after (executeQuery logError D env w queryFn opts now now_done)
              \<subseteq>\<^sub>m queryCache w)"
proof (cases rule: executeQuery_cases [where env = env and w = w and opts = opts and now = now
      and queryFn = queryFn and D = D])
  case preview
  note run = executeQuery_preview [OF preview, of logError D w queryFn opts now now_done]
  show ?thesis using ran by (simp add: run)
next
  case (hit cached c1)
  note run = executeQuery_hit [OF hit, of logError D queryFn now_done]
  show ?thesis using ran by (simp add: run)
next
  case (no_client c1)
  note run = executeQuery_no_client [OF no_client, of logError D queryFn now_done]
  show ?thesis using ran by (simp add: run)
next
  case (gated c1 sql)
  note run = executeQuery_gated [OF gated, of logError D queryFn now_done]
  show ?thesis using ran by (simp add: run)
next
  case (success c1 sql result events')
  note run = executeQuery_success [OF success, of logError now_done]
  have res: "result = r" using ok by (simp add: run)
  have written: "truthy r \<Longrightarrow>
      cache_after (executeQuery logError D env w queryFn opts now now_done) key
        = Some \<lparr>entry_value = r,
                expiresAt = now_done
                  + (case cacheTtl opts of Some t \<Rightarrow> t | None \<Rightarrow> 60000)\<rparr>"
    using res key
    by (simp add: run js_or_def cache_set_def CACHE_TTL_MS_def split: option.split)
  have c1: "snd (cache_check (queryCache w) (cacheKey opts) now) = c1"
    by (simp add: success(2))
  have kept: "\<not> truthy r \<Longrightarrow>
      cache_after (executeQuery logError D env w queryFn opts now now_done)
        = snd (cache_check (queryCache w) (cacheKey opts) now)"
    using res by (simp add: run c1 split: option.split)
  have sub: "\<not> truthy r \<Longrightarrow>
      cache_after (executeQuery logError D env w queryFn opts now now_done) \<subseteq>\<^sub>m queryCache w"
    using kept cache_check_map_le [of "queryCache w" "cacheKey opts" now] by simp
  show ?thesis using written kept sub by blast
next
  case (failure c1 sql e events')
  note run = executeQuery_failure [OF failure, of logError now_done]
  show ?thesis using ok by (simp add: run)
qed

theorem C5_cache_write_witness:
  "cache_after (executeQuery plain_logError retry_by_flag server_env
      \<lparr>dbHealthStatus = initial_dbHealthStatus, queryCache = Map.empty\<rparr>
      (\<lambda>k. Inr (JNum 7))
      \<lparr>cacheKey = Some ''stock:1'', cacheTtl = None, retryConfig = None, critical = None\<rparr>
      1000 1020) ''stock:1''
   = Some \<lparr>entry_value = JNum 7, expiresAt = 61020\<rparr>
   \<and> cache_after (executeQuery plain_logError retry_by_flag server_env
      \<lparr>dbHealthStatus = initial_dbHealthStatus, queryCache = Map.empty\<rparr>
      (\<lambda>k. Inr (JNum 0))
      \<lparr>cacheKey = Some ''stock:1'', cacheTtl = None, retryConfig = None, critical = None\<rparr>
      1000 1020)
   = Map.empty"
  using C5_cache_write [of
      "\<lparr>cacheKey = Some ''stock:1'', cacheTtl = None, retryConfig = None, critical = None\<rparr>"
      "''stock:1''" plain_logError retry_by_flag server_env
      "\<lparr>dbHealthStatus = initial_dbHealthStatus, queryCache = Map.empty\<rparr>"
      "\<lambda>k. Inr (JNum 7)" 1000 1020 "JNum 7" "[Invoked 1]"]
    C5_cache_write [of
      "\<lparr>cacheKey = Some ''stock:1'', cacheTtl = None, retryConfig = None, critical = None\<rparr>"
      "''stock:1''" plain_logError retry_by_flag server_env
      "\<lparr>dbHealthStatus = initial_dbHealthStatus, queryCache = Map.empty\<rparr>"
      "\<lambda>k. Inr (JNum 0)" 1000 1020 "JNum 0" "[Invoked 1]"]
  by (simp add: run_on_server cache_check_absent)

text \<open>
  C5 as stated fails for a result that is falsy: the operation succeeds with 0, a
  cache key is given, and the cache is still empty when the call returns.
\<close>

theorem C5_counterexample:
  "executeQuery plain_logError retry_by_flag server_env
      \<lparr>dbHealthStatus = initial_dbHealthStatus, queryCache = Map.empty\<rparr>
      (\<lambda>k. Inr (JNum 0))
      \<lparr>cacheKey = Some ''stock:1'', cacheTtl = Some 5000, retryConfig = None, critical = None\<rparr>
      1000 1020
   = \<lparr>outcome = Inr (JNum 0), cache_after = Map.empty, retry_log = Some [Invoked 1]\<rparr>"
  by (simp add: run_on_server cache_check_absent js_or_def)

text \<open>
  C10. The cache check and the cache write of \<open>executeQuery\<close> go by truthiness. A
  call whose cache key has a live entry with a falsy value answers as the same call
  does with that entry absent: the same result, the same invocations of the operation.
  And a call with a cache key that returns a falsy result has run the operation and
  written nothing: the cache is as the read of the cache check left it, with no entry
  added or changed.
\<close>

theorem C10_truthiness:
  shows "(cacheKey opts = Some key \<and> queryCache w key = Some e \<and> \<not> now > expiresAt e
          \<and> \<not> truthy (entry_value e) \<longrightarrow>
            outcome (executeQuery logError D env w queryFn opts now now_done)
              = outcome (executeQuery logError D env
                  (w\<lparr>queryCache := (queryCache w)(key := None)\<rparr>) queryFn opts now now_done)
          \<and> retry_log (executeQuery logError D env w queryFn opts now now_done)
              = retry_log (executeQuery logError D env
                  (w\<lparr>queryCache := (queryCache w)(key := None)\<rparr>) queryFn opts now now_done))
       \<and> (cacheKey opts = Some key
          \<and> outcome (executeQuery logError D env w queryFn opts now now_done) = Inr r
          \<and> \<not> truthy r \<longrightarrow>
            retry_log (executeQuery logError D env w queryFn opts now now_done) \<noteq> None
          \<and> cache_after (executeQuery logError D env w queryFn opts now now_done)
              = snd (cache_check (queryCache w) (cacheKey opts) now)
          \<and> cache_after (executeQuery logError D env w queryFn opts now now_done)
              \<subseteq>\<^sub>m queryCache w)"
proof (intro conjI impI)
  assume a: "cacheKey opts = Some key \<and> queryCache w key = Some e \<and> \<not> now > expiresAt e
          \<and> \<not> truthy (entry_value e)"
  have "fst (cache_check (queryCache w) (cacheKey opts) now) = None"
    using a by (simp add: cache_check_live_falsy)
  moreover have "fst (cache_check (queryCache (w\<lparr>queryCache := (queryCache w)(key := None)\<rparr>))
                       (cacheKey opts) now) = None"
    using a by (simp add: cache_check_absent)
  ultimately have same: "outcome (executeQuery logError D env w queryFn opts now now_done)
              = outcome (executeQuery logError D env
                  (w\<lparr>queryCache := (queryCache w)(key := None)\<rparr>) queryFn opts now now_done)
          \<and> retry_log (executeQuery logError D env w queryFn opts now now_done)
              = retry_log (executeQuery logError D env
                  (w\<lparr>queryCache := (queryCache w)(key := None)\<rparr>) queryFn opts now now_done)"
    using executeQuery_same_answer [of w "w\<lparr>queryCache := (queryCache w)(key := None)\<rparr>"
        opts now logError D env queryFn now_done]
    by simp
  from same show "outcome (executeQuery logError D env w queryFn opts now now_done)
              = outcome (executeQuery logError D env
                  (w\<lparr>queryCache := (queryCache w)(key := None)\<rparr>) queryFn opts now now_done)"
    by (rule conjunct1)
  from same show "retry_log (executeQuery logError D env w queryFn opts now now_done)
              = retry_log (executeQuery logError D env
                  (w\<lparr>queryCache := (queryCache w)(key := None)\<rparr>) queryFn opts now now_done)"
    by (rule conjunct2)
next
  assume b: "cacheKey opts = Some key
          \<and> outcome (executeQuery logError D env w queryFn opts now now_done) = Inr r
          \<and> \<not> truthy r"
  have "retry_log (executeQuery logError D env w queryFn opts now now_done) \<noteq> None
      \<and> cache_after (executeQuery logError D env w queryFn opts now now_done)
          = snd (cache_check (queryCache w) (cacheKey opts) now)"
  proof (cases rule: executeQuery_cases [where env = env and w = w and opts = opts
        and now = now and queryFn = queryFn and D = D])
    case preview
    note run = executeQuery_preview [OF preview, of logError D w queryFn opts now now_done]
    show ?thesis using b by (simp add: run)
  next
    case (hit cached c1)
    note run = executeQuery_hit [OF hit, of logError D queryFn now_done]
    show ?thesis using b cache_check_truthy [OF hit(2)] by (simp add: run)
  next
    case (no_client c1)
    note run = executeQuery_no_client [OF no_client, of logError D queryFn now_done]
    show ?thesis using b by (simp add: run)
  next
    case (gated c1 sql)
    note run = executeQuery_gated [OF gated, of logError D queryFn now_done]
    show ?thesis using b by (simp add: run)
  next
    case (success c1 sql result events)
    note run = executeQuery_success [OF success, of logError now_done]
    have "result = r" using b by (simp add: run)
    then show ?thesis using b success(2) by (simp add: run split: option.split)
  next
    case (failure c1 sql e events)
    note run = executeQuery_failure [OF failure, of logError now_done]
    show ?thesis using b by (simp add: run)
  qed
  then show "retry_log (executeQuery logError D env w queryFn opts now now_done) \<noteq> None"
    and "cache_after (executeQuery logError D env w queryFn opts now now_done)
          = snd (cache_check (queryCache w) (cacheKey opts) now)"
    and "cache_after (executeQuery logError D env w queryFn opts now now_done)
              \<subseteq>\<^sub>m queryCache w"
    by (simp_all add: cache_check_map_le)
qed

theorem C10_truthiness_witness:
  "outcome (executeQuery plain_logError retry_by_flag server_env
      \<lparr>dbHealthStatus = initial_dbHealthStatus,
       queryCache = [''stock:1'' \<mapsto> \<lparr>entry_value = JNum 0, expiresAt = 60000\<rparr>]\<rparr>
      (\<lambda>k. Inr JNull)
      \<lparr>cacheKey = Some ''stock:1'', cacheTtl = None, retryConfig = None, critical = None\<rparr>
      1000 1020) = Inr JNull
   \<and> retry_log (executeQuery plain_logError retry_by_flag server_env
      \<lparr>dbHealthStatus = initial_dbHealthStatus,
       queryCache = [''stock:1'' \<mapsto> \<lparr>entry_value = JNum 0, expiresAt = 60000\<rparr>]\<rparr>
      (\<lambda>k. Inr JNull)
      \<lparr>cacheKey = Some ''stock:1'', cacheTtl = None, retryConfig = None, critical = None\<rparr>
      1000 1020) = Some [Invoked 1]
   \<and> cache_after (executeQuery plain_logError retry_by_flag server_env
      \<lparr>dbHealthStatus = initial_dbHealthStatus,
       queryCache = [''stock:1'' \<mapsto> \<lparr>entry_value = JNum 0, expiresAt = 60000\<rparr>]\<rparr>
      (\<lambda>k. Inr JNull)
      \<lparr>cacheKey = Some ''stock:1'', cacheTtl = None, retryConfig = None, critical = None\<rparr>
      1000 1020) = [''stock:1'' \<mapsto> \<lparr>entry_value = JNum 0, expiresAt = 60000\<rparr>]"
proof -
  let ?c = "[''stock:1'' \<mapsto> \<lparr>entry_value = JNum 0, expiresAt = 60000\<rparr>]"
  let ?w = "\<lparr>dbHealthStatus = initial_dbHealthStatus, queryCache = ?c\<rparr>"
  let ?opts = "\<lparr>cacheKey = Some ''stock:1'', cacheTtl = None, retryConfig = None,
                critical = None\<rparr>"
  have miss: "cache_check (Map.empty :: query_cache) (Some ''stock:1'') 1000 = (None, Map.empty)"
    by (simp add: cache_check_absent)
  have falsy: "cache_check ?c (Some ''stock:1'') 1000 = (None, ?c)"
    by (simp add: cache_check_live_falsy)
  have on_miss: "executeQuery plain_logError retry_by_flag server_env
      \<lparr>dbHealthStatus = initial_dbHealthStatus, queryCache = Map.empty\<rparr>
      (\<lambda>k. Inr JNull) ?opts 1000 1020
    = \<lparr>outcome = Inr JNull, cache_after = Map.empty, retry_log = Some [Invoked 1]\<rparr>"
    using run_on_server [OF miss, of JNull None 1020] by (simp add: js_or_def)
  from C10_truthiness [of ?opts "''stock:1''" ?w "\<lparr>entry_value = JNum 0, expiresAt = 60000\<rparr>"
      1000 plain_logError retry_by_flag server_env "\<lambda>k. Inr JNull" 1020 JNull]
  show ?thesis
    by (simp add: on_miss falsy)
qed

section \<open>The health monitor\<close>

text \<open>
  C9. \<open>checkDbHealth\<close> never rejects: for every environment, probe and state it
  returns a status and records the status it returns. Whenever the probe fails (no
  database URL, \<open>neon\<close> or the query throwing, the query rejecting, or the timeout of
  the race winning), the error is caught and that status has \<open>isConnected\<close> false and
  carries the message of the error as \<open>logError\<close> returns it; only a query that
  resolves before the timeout is recorded as connected, and in preview mode nothing is
  probed. The timer goes on whatever the probes did: every firing runs
  \<open>checkDbHealth\<close> on the state the firings before it left, nothing reaches
  \<open>console.error\<close>, and \<open>startHealthChecks\<close> is, outside preview mode, the initial
  check followed by these firings.
\<close>

theorem C9_probe_never_throws:
  shows "checkDbHealth logError env p now w =
     (let status =
        (if isPreviewEnvironment env
         then \<lparr>isConnected = True, lastChecked = now, responseTimeMs = Some 0, error = None\<rparr>
         else
           (case (if getDatabaseUrl env = None
                  then Inl (ThrownAppError
                         \<lparr>errType = DATABASE_CONNECTION, message = ''Database URL not found'',
                          details = Some ''Check environment variables'', retryable = None\<rparr>)
                  else (case p of
                          ClientThrows e \<Rightarrow> Inl e
                        | QueryResolves elapsed \<Rightarrow>
                            if elapsed < of_int CONNECTION_TIMEOUT_MS then Inr elapsed
                            else Inl (ThrownError ''Database health check timed out'')
                        | QueryRejects elapsed e \<Rightarrow>
                            if elapsed < of_int CONNECTION_TIMEOUT_MS then Inl e
                            else Inl (ThrownError ''Database health check timed out'')
                        | QueryPending \<Rightarrow>
                            Inl (ThrownError ''Database health check timed out''))) of
              Inl e \<Rightarrow>
                \<lparr>isConnected = False, lastChecked = now, responseTimeMs = None,
                 error = Some (message (logError e ''Database Health Check''))\<rparr>
            | Inr elapsed \<Rightarrow>
                \<lparr>isConnected = True, lastChecked = now,
                 responseTimeMs = Some (Math_round elapsed), error = None\<rparr>))
      in (Inr status, w\<lparr>dbHealthStatus := status\<rparr>))
   \<and> (\<exists>status. checkDbHealth logError env p now w
                   = (Inr status, w\<lparr>dbHealthStatus := status\<rparr>))
   \<and> fst (run_interval logError env w ticks)
       = foldl (\<lambda>w tick. snd (checkDbHealth logError env (fst tick) (snd tick) w)) w ticks
   \<and> snd (run_interval logError env w ticks) = map (\<lambda>tick. []) ticks
   \<and> fst (run_interval logError env w (ticks @ [(p, now)]))
       = snd (checkDbHealth logError env p now (fst (run_interval logError env w ticks)))
   \<and> startHealthChecks logError env w initial ticks
       = (if isPreviewEnvironment env then (w, [])
          else run_interval logError env
                 (snd (checkDbHealth logError env (fst initial) (snd initial) w)) ticks)"
proof (intro conjI)
  show "checkDbHealth logError env p now w =
     (let status =
        (if isPreviewEnvironment env
         then \<lparr>isConnected = True, lastChecked = now, responseTimeMs = Some 0, error = None\<rparr>
         else
           (case (if getDatabaseUrl env = None
                  then Inl (ThrownAppError
                         \<lparr>errType = DATABASE_CONNECTION, message = ''Database URL not found'',
                          details = Some ''Check environment variables'', retryable = None\<rparr>)
                  else (case p of
                          ClientThrows e \<Rightarrow> Inl e
                        | QueryResolves elapsed \<Rightarrow>
                            if elapsed < of_int CONNECTION_TIMEOUT_MS then Inr elapsed
                            else Inl (ThrownError ''Database health check timed out'')
                        | QueryRejects elapsed e \<Rightarrow>
                            if elapsed < of_int CONNECTION_TIMEOUT_MS then Inl e
                            else Inl (ThrownError ''Database health check timed out'')
                        | QueryPending \<Rightarrow>
                            Inl (ThrownError ''Database health check timed out''))) of
              Inl e \<Rightarrow>
                \<lparr>isConnected = False, lastChecked = now, responseTimeMs = None,
                 error = Some (message (logError e ''Database Health Check''))\<rparr>
            | Inr elapsed \<Rightarrow>
                \<lparr>isConnected = True, lastChecked = now,
                 responseTimeMs = Some (Math_round elapsed), error = None\<rparr>))
      in (Inr status, w\<lparr>dbHealthStatus := status\<rparr>))"
    by (rule checkDbHealth_status)
next
  show "\<exists>status. checkDbHealth logError env p now w
                   = (Inr status, w\<lparr>dbHealthStatus := status\<rparr>)"
    by (rule checkDbHealth_returns)
next
  show "fst (run_interval logError env w ticks)
       = foldl (\<lambda>w tick. snd (checkDbHealth logError env (fst tick) (snd tick) w)) w ticks"
    by (rule run_interval_world)
next
  show "snd (run_interval logError env w ticks) = map (\<lambda>tick. []) ticks"
    by (simp add: run_interval_events map_replicate_const)
next
  show "fst (run_interval logError env w (ticks @ [(p, now)]))
       = snd (checkDbHealth logError env p now (fst (run_interval logError env w ticks)))"
    by (rule run_interval_snoc)
next
  show "startHealthChecks logError env w initial ticks
       = (if isPreviewEnvironment env then (w, [])
          else run_interval logError env
                 (snd (checkDbHealth logError env (fst initial) (snd initial) w)) ticks)"
    by (rule startHealthChecks_run)
qed

theorem C9_probe_never_throws_witness:
  "checkDbHealth plain_logError bare_env (QueryResolves 12) 5000
       \<lparr>dbHealthStatus = initial_dbHealthStatus, queryCache = Map.empty\<rparr>
     = (Inr \<lparr>isConnected = False, lastChecked = 5000, responseTimeMs = None,
             error = Some ''Database URL not found''\<rparr>,
        \<lparr>dbHealthStatus = \<lparr>isConnected = False, lastChecked = 5000, responseTimeMs = None,
                            error = Some ''Database URL not found''\<rparr>,
         queryCache = Map.empty\<rparr>)
   \<and> checkDbHealth plain_logError server_env (ClientThrows (ThrownError ''invalid url'')) 5000
       \<lparr>dbHealthStatus = initial_dbHealthStatus, queryCache = Map.empty\<rparr>
     = (Inr \<lparr>isConnected = False, lastChecked = 5000, responseTimeMs = None,
             error = Some ''invalid url''\<rparr>,
        \<lparr>dbHealthStatus = \<lparr>isConnected = False, lastChecked = 5000, responseTimeMs = None,
                            error = Some ''invalid url''\<rparr>,
         queryCache = Map.empty\<rparr>)
   \<and> startHealthChecks plain_logError server_env
       \<lparr>dbHealthStatus = initial_dbHealthStatus, queryCache = Map.empty\<rparr>
       (QueryPending, 10000)
       [(QueryRejects 40 (ThrownError ''connection refused''), 300040),
        (QueryResolves 12, 600012)]
     = (\<lparr>dbHealthStatus = \<lparr>isConnected = True, lastChecked = 600012,
                            responseTimeMs = Some 12, error = None\<rparr>,
         queryCache = Map.empty\<rparr>, [[], []])
   \<and> fst (run_interval plain_logError server_env
       \<lparr>dbHealthStatus = initial_dbHealthStatus, queryCache = Map.empty\<rparr>
       [(QueryResolves 12, 300012), (QueryPending, 610000)])
     = \<lparr>dbHealthStatus = \<lparr>isConnected = False, lastChecked = 610000, responseTimeMs = None,
                           error = Some ''Database health check timed out''\<rparr>,
        queryCache = Map.empty\<rparr>"
proof -
  let ?w = "\<lparr>dbHealthStatus = initial_dbHealthStatus, queryCache = Map.empty\<rparr>"
  let ?refused = "QueryRejects 40 (ThrownError ''connection refused'')"
  let ?w1 = "\<lparr>dbHealthStatus = \<lparr>isConnected = False, lastChecked = 10000, responseTimeMs = None,
                   error = Some ''Database health check timed out''\<rparr>,
              queryCache = Map.empty\<rparr>"
  let ?w2 = "\<lparr>dbHealthStatus = \<lparr>isConnected = False, lastChecked = 300040,
                   responseTimeMs = None, error = Some ''connection refused''\<rparr>,
              queryCache = Map.empty\<rparr>"
  let ?w3 = "\<lparr>dbHealthStatus = \<lparr>isConnected = True, lastChecked = 300012,
                   responseTimeMs = Some 12, error = None\<rparr>,
              queryCache = Map.empty\<rparr>"
  note facts = Let_def bare_env_facts server_env_facts plain_logError_def CONNECTION_TIMEOUT_MS_def
    Math_round_12
  have no_url: "checkDbHealth plain_logError bare_env (QueryResolves 12) 5000 ?w
     = (Inr \<lparr>isConnected = False, lastChecked = 5000, responseTimeMs = None,
             error = Some ''Database URL not found''\<rparr>,
        \<lparr>dbHealthStatus = \<lparr>isConnected = False, lastChecked = 5000, responseTimeMs = None,
                            error = Some ''Database URL not found''\<rparr>,
         queryCache = Map.empty\<rparr>)"
    using C9_probe_never_throws [of plain_logError bare_env "QueryResolves 12" 5000 ?w "[]"
        "(QueryPending, 0)"]
    by (simp add: facts)
  have throws: "checkDbHealth plain_logError server_env
       (ClientThrows (ThrownError ''invalid url'')) 5000 ?w
     = (Inr \<lparr>isConnected = False, lastChecked = 5000, responseTimeMs = None,
             error = Some ''invalid url''\<rparr>,
        \<lparr>dbHealthStatus = \<lparr>isConnected = False, lastChecked = 5000, responseTimeMs = None,
                            error = Some ''invalid url''\<rparr>,
         queryCache = Map.empty\<rparr>)"
    using C9_probe_never_throws [of plain_logError server_env
        "ClientThrows (ThrownError ''invalid url'')" 5000 ?w "[]" "(QueryPending, 0)"]
    by (simp add: facts)
  have s0: "snd (checkDbHealth plain_logError server_env QueryPending 10000 ?w) = ?w1"
    using C9_probe_never_throws [of plain_logError server_env QueryPending 10000 ?w "[]"
        "(QueryPending, 0)"]
    by (simp add: facts)
  have s1: "snd (checkDbHealth plain_logError server_env ?refused 300040 ?w1) = ?w2"
    using C9_probe_never_throws [of plain_logError server_env ?refused 300040 ?w1 "[]"
        "(QueryPending, 0)"]
    by (simp add: facts)
  have s2: "snd (checkDbHealth plain_logError server_env (QueryResolves 12) 600012 ?w2)
      = \<lparr>dbHealthStatus = \<lparr>isConnected = True, lastChecked = 600012,
                            responseTimeMs = Some 12, error = None\<rparr>,
         queryCache = Map.empty\<rparr>"
    using C9_probe_never_throws [of plain_logError server_env "QueryResolves 12" 600012 ?w2
        "[]" "(QueryPending, 0)"]
    by (simp add: facts)
  have s3: "snd (checkDbHealth plain_logError server_env (QueryResolves 12) 300012 ?w) = ?w3"
    using C9_probe_never_throws [of plain_logError server_env "QueryResolves 12" 300012 ?w "[]"
        "(QueryPending, 0)"]
    by (simp add: facts)
  have s4: "snd (checkDbHealth plain_logError server_env QueryPending 610000 ?w3)
      = \<lparr>dbHealthStatus = \<lparr>isConnected = False, lastChecked = 610000, responseTimeMs = None,
                           error = Some ''Database health check timed out''\<rparr>,
        queryCache = Map.empty\<rparr>"
    using C9_probe_never_throws [of plain_logError server_env QueryPending 610000 ?w3 "[]"
        "(QueryPending, 0)"]
    by (simp add: facts)
  have started: "startHealthChecks plain_logError server_env ?w (QueryPending, 10000)
       [(?refused, 300040), (QueryResolves 12, 600012)]
     = (\<lparr>dbHealthStatus = \<lparr>isConnected = True, lastChecked = 600012,
                            responseTimeMs = Some 12, error = None\<rparr>,
         queryCache = Map.empty\<rparr>, [[], []])"
  proof -
    note run = C9_probe_never_throws [of plain_logError server_env QueryPending 10000 ?w1
        "[(?refused, 300040), (QueryResolves 12, 600012)]" "(QueryPending, 10000)"]
    note start = C9_probe_never_throws [of plain_logError server_env QueryPending 10000 ?w
        "[(?refused, 300040), (QueryResolves 12, 600012)]" "(QueryPending, 10000)"]
    have a: "fst (run_interval plain_logError server_env ?w1
                [(?refused, 300040), (QueryResolves 12, 600012)])
             = \<lparr>dbHealthStatus = \<lparr>isConnected = True, lastChecked = 600012,
                            responseTimeMs = Some 12, error = None\<rparr>,
                queryCache = Map.empty\<rparr>"
      using run by (simp add: s1 s2)
    have b: "snd (run_interval plain_logError server_env ?w1
                [(?refused, 300040), (QueryResolves 12, 600012)]) = [[], []]"
      using run by simp
    have "startHealthChecks plain_logError server_env ?w (QueryPending, 10000)
            [(?refused, 300040), (QueryResolves 12, 600012)]
          = run_interval plain_logError server_env ?w1
              [(?refused, 300040), (QueryResolves 12, 600012)]"
      using start by (simp add: s0 server_env_facts)
    then show ?thesis using a b by (simp add: prod_eq_iff)
  qed
  have relapse: "fst (run_interval plain_logError server_env ?w
       [(QueryResolves 12, 300012), (QueryPending, 610000)])
     = \<lparr>dbHealthStatus = \<lparr>isConnected = False, lastChecked = 610000, responseTimeMs = None,
                           error = Some ''Database health check timed out''\<rparr>,
        queryCache = Map.empty\<rparr>"
    using C9_probe_never_throws [of plain_logError server_env QueryPending 610000 ?w
        "[(QueryResolves 12, 300012), (QueryPending, 610000)]" "(QueryPending, 0)"]
    by (simp add: s3 s4)
  show ?thesis using no_url throws started relapse by simp
qed

text \<open>
  C1, evaluated where the code departs from it. The status is disconnected, the cache
  holds an entry, and the timer's probe succeeds: the status becomes connected, and
  the callback calls neither \<open>console.log\<close> nor \<open>queryCache.invalidateAll\<close>; the
  entry is still in the cache. The claim has \<open>invalidateAll\<close> called once here.
\<close>

theorem C1_restored_connection_keeps_cache:
  "interval_callback plain_logError server_env
      \<lparr>dbHealthStatus = \<lparr>isConnected = False, lastChecked = 10000, responseTimeMs = None,
                          error = Some ''Database health check timed out''\<rparr>,
       queryCache = [''plasma:1'' \<mapsto> \<lparr>entry_value = JArr [], expiresAt = 360000\<rparr>]\<rparr>
      (QueryResolves 12, 300012)
   = (\<lparr>dbHealthStatus = \<lparr>isConnected = True, lastChecked = 300012, responseTimeMs = Some 12,
                           error = None\<rparr>,
       queryCache = [''plasma:1'' \<mapsto> \<lparr>entry_value = JArr [], expiresAt = 360000\<rparr>]\<rparr>,
      [])"
  by (simp add: interval_callback_no_flush checkDbHealth_def checkDbHealth_try_def
        server_env_facts js_or_def promise_race_def CONNECTION_TIMEOUT_MS_def Math_round_12)

end
